theory Spec2Isabelle
  imports Main "HOL-Library.Sublist"
begin

section \<open>Common model: paths, the filesystem, exceptions\<close>

text \<open>
  Both scripts (\<^verbatim>\<open>run_backend_tests.py\<close> and \<^verbatim>\<open>verify_backend_tests.py\<close>) are
  orchestration code: they call external programs and libraries, look at the
  filesystem and print. The model makes the outside world explicit:
  \<^item> a path is the list of its components, as \<^verbatim>\<open>pathlib\<close> stores it; \<open>joinpath\<close> is the
    operator \<^verbatim>\<open>/\<close> of \<^verbatim>\<open>pathlib\<close>, which splits its right operand at slashes;
  \<^item> the filesystem is the set of paths that exist;
  \<^item> an exception is a value; a function that can raise returns a sum, \<open>Inl\<close> the
    exception;
  \<^item> what is printed and which child processes are started is returned as a list
    of events, in order.
  Wall-clock measurements (\<^verbatim>\<open>time.time()\<close>) only feed a printed duration and are
  left out.
\<close>

type_synonym path = "string list"

type_synonym fs = "path set"

fun split_slash :: "string \<Rightarrow> string \<Rightarrow> string list" where
  "split_slash acc [] = [rev acc]"
| "split_slash acc (c # cs) =
     (if c = CHR ''/'' then rev acc # split_slash [] cs else split_slash (c # acc) cs)"

definition joinpath :: "path \<Rightarrow> string \<Rightarrow> path" where
  "joinpath p s = p @ split_slash [] s"

text \<open>
  The subclasses of Python's \<^verbatim>\<open>Exception\<close> that the two scripts name in a handler
  or that the calls they make raise. \<open>OtherError\<close> stands for any other subclass of
  \<^verbatim>\<open>Exception\<close> (for instance \<^verbatim>\<open>sqlite3.OperationalError\<close>). A handler
  \<^verbatim>\<open>except Exception\<close> catches every value of this type.
\<close>

datatype exc =
    CalledProcessError int
  | TimeoutExpired
  | FileNotFoundError
  | ImportError
  | RequestException
  | SyntaxError
  | IndexError
  | UnboundLocalError
  | OtherError string

text \<open>
  \<^verbatim>\<open>KeyboardInterrupt\<close> derives from \<^verbatim>\<open>BaseException\<close>, not from \<^verbatim>\<open>Exception\<close>:
  only a handler that names it catches it.
\<close>

datatype base_exc = KeyboardInterrupt | Exception exc

section \<open>The test runner (run\_backend\_tests.py)\<close>

subsection \<open>Child processes\<close>

text \<open>
  What becomes of a command handed to \<^verbatim>\<open>subprocess.run\<close>: the child ran and exited
  with a status, leaving behind a set of files it created or overwrote; the command
  could not be started at all (the executable is missing); or the user interrupted
  the runner while it waited for the child. The operating system is a function from
  the working directory and the argument vector to this outcome.
\<close>

datatype proc_result =
    Exited int "path set"
  | Not_Started
  | Interrupted

type_synonym os = "path \<Rightarrow> string list \<Rightarrow> proc_result"

text \<open>
  \<^verbatim>\<open>subprocess.run(command, check=True, cwd=...)\<close>: with \<^verbatim>\<open>check=True\<close> a non-zero
  exit status is raised as \<^verbatim>\<open>CalledProcessError\<close>; a command that cannot be started
  raises \<^verbatim>\<open>FileNotFoundError\<close>.
\<close>

definition subprocess_run :: "os \<Rightarrow> string list \<Rightarrow> path \<Rightarrow> fs \<Rightarrow> (base_exc + unit) \<times> fs" where
  "subprocess_run sys command cwd files =
     (case sys cwd command of
        Exited rc written \<Rightarrow>
          (if rc = 0 then Inr () else Inl (Exception (CalledProcessError rc)),
           files \<union> written)
      | Not_Started \<Rightarrow> (Inl (Exception FileNotFoundError), files)
      | Interrupted \<Rightarrow> (Inl KeyboardInterrupt, files))"

subsection \<open>Printed lines and events\<close>

text \<open>
  One constructor per \<^verbatim>\<open>print\<close> of the runner. \<open>Report_Line present label p\<close> is the
  line of the summary for one report: the check mark or the cross, the label and
  the path. \<open>Ran command cwd\<close> records the call of \<^verbatim>\<open>subprocess.run\<close>.
\<close>

datatype line =
    Rule
  | Running string
  | Completed
  | Failed
  | Summary_Title
  | Reports_Heading
  | Report_Line bool string path
  | Coverage_Line path
  | All_Reports path
  | Tools_Heading
  | Tool string
  | Interrupted_Message

datatype event = Printed line | Ran "string list" path

subsection \<open>BackendTestRunner\<close>

record runner =
  base_dir :: path
  reports_dir :: path

text \<open>
  \<^verbatim>\<open>__init__\<close>: \<open>script_dir\<close> is \<^verbatim>\<open>Path(__file__).parent\<close>;
  \<^verbatim>\<open>mkdir(exist_ok=True)\<close> makes the reports directory exist.
\<close>

definition init_runner :: "path \<Rightarrow> fs \<Rightarrow> runner \<times> fs" where
  "init_runner script_dir files =
     (let base = script_dir; reports = joinpath base ''reports''
      in (\<lparr>base_dir = base, reports_dir = reports\<rparr>, insert reports files))"

text \<open>
  \<^verbatim>\<open>run_command\<close>: only \<^verbatim>\<open>CalledProcessError\<close> is caught; every other exception
  leaves the function.
\<close>

definition run_command ::
  "runner \<Rightarrow> os \<Rightarrow> string list \<Rightarrow> string \<Rightarrow> fs \<Rightarrow> (base_exc + bool) \<times> event list \<times> fs" where
  "run_command self sys command description files =
     (let started = [Printed Rule, Printed (Running description), Printed Rule,
                     Ran command (base_dir self)]
      in case subprocess_run sys command (base_dir self) files of
           (Inr _, files') \<Rightarrow> (Inr True, started @ [Printed Completed], files')
         | (Inl (Exception (CalledProcessError rc)), files') \<Rightarrow>
             (Inr False, started @ [Printed Failed], files')
         | (Inl e, files') \<Rightarrow> (Inl e, started, files'))"

definition api_command :: "string list" where
  "api_command = [''pytest'', ''tests/backend/blackbox/test_api_simple.py'', ''-v'',
     ''--html=reports/api-tests.html'', ''--self-contained-html'']"

definition database_command :: "string list" where
  "database_command = [''pytest'', ''tests/backend/blackbox/test_database_simple.py'', ''-v'',
     ''--html=reports/database-tests.html'', ''--self-contained-html'']"

definition unit_command :: "string list" where
  "unit_command = [''pytest'', ''tests/backend/whitebox/test_unit_simple.py'', ''-v'',
     ''--cov=tests/backend/whitebox'', ''--cov-report=html:reports/coverage'',
     ''--html=reports/unit-tests.html'', ''--self-contained-html'']"

definition integration_command :: "string list" where
  "integration_command = [''pytest'', ''tests/backend/test_integration_simple.py'', ''-v'',
     ''--html=reports/integration-tests.html'', ''--self-contained-html'']"

definition all_command :: "string list" where
  "all_command = [''pytest'', ''tests/backend/'', ''-v'', ''--cov=tests/backend'',
     ''--cov-report=html:reports/full-coverage'', ''--cov-report=term-missing'',
     ''--html=reports/all-backend-tests.html'', ''--self-contained-html'']"

definition bandit_command :: "string list" where
  "bandit_command = [''bandit'', ''-r'', ''tests/backend/'', ''-f'', ''txt'']"

definition safety_command :: "string list" where
  "safety_command = [''safety'', ''check'']"

definition run_api_tests :: "runner \<Rightarrow> os \<Rightarrow> fs \<Rightarrow> (base_exc + bool) \<times> event list \<times> fs" where
  "run_api_tests self sys files =
     run_command self sys api_command ''API Black Box Tests'' files"

definition run_database_tests :: "runner \<Rightarrow> os \<Rightarrow> fs \<Rightarrow> (base_exc + bool) \<times> event list \<times> fs" where
  "run_database_tests self sys files =
     run_command self sys database_command ''Database Tests with Factory Boy'' files"

definition run_unit_tests :: "runner \<Rightarrow> os \<Rightarrow> fs \<Rightarrow> (base_exc + bool) \<times> event list \<times> fs" where
  "run_unit_tests self sys files =
     run_command self sys unit_command ''Unit Tests with Coverage'' files"

definition run_integration_tests :: "runner \<Rightarrow> os \<Rightarrow> fs \<Rightarrow> (base_exc + bool) \<times> event list \<times> fs" where
  "run_integration_tests self sys files =
     run_command self sys integration_command ''Integration Tests'' files"

definition run_all_tests :: "runner \<Rightarrow> os \<Rightarrow> fs \<Rightarrow> (base_exc + bool) \<times> event list \<times> fs" where
  "run_all_tests self sys files =
     run_command self sys all_command ''All Backend Tests'' files"

text \<open>
  \<^verbatim>\<open>run_security_scan\<close>: the loop over the two commands. An exception out of
  \<^verbatim>\<open>run_command\<close> ends the loop; a \<^verbatim>\<open>False\<close> result only clears \<open>success\<close>.
\<close>

fun scan_loop ::
  "runner \<Rightarrow> os \<Rightarrow> (string list \<times> string) list \<Rightarrow> bool \<Rightarrow> fs \<Rightarrow>
   (base_exc + bool) \<times> event list \<times> fs" where
  "scan_loop self sys [] success files = (Inr success, [], files)"
| "scan_loop self sys ((command, description) # rest) success files =
     (case run_command self sys command description files of
        (Inl e, tr, files') \<Rightarrow> (Inl e, tr, files')
      | (Inr ok, tr, files') \<Rightarrow>
          (case scan_loop self sys rest (if \<not> ok then False else success) files' of
             (r, tr', files'') \<Rightarrow> (r, tr @ tr', files'')))"

definition security_commands :: "(string list \<times> string) list" where
  "security_commands =
     [(bandit_command, ''Security Scan''), (safety_command, ''Dependency Security Check'')]"

definition run_security_scan :: "runner \<Rightarrow> os \<Rightarrow> fs \<Rightarrow> (base_exc + bool) \<times> event list \<times> fs" where
  "run_security_scan self sys files = scan_loop self sys security_commands True files"

text \<open>
  \<^verbatim>\<open>generate_summary\<close>: the static list of five reports, one line for each, the
  pointer to the coverage report when its index file exists. It only reads the
  filesystem, which it returns as it got it.
\<close>

definition reports :: "(string \<times> string) list" where
  "reports =
     [(''api-tests.html'', ''API Tests''),
      (''database-tests.html'', ''Database Tests''),
      (''unit-tests.html'', ''Unit Tests''),
      (''integration-tests.html'', ''Integration Tests''),
      (''all-backend-tests.html'', ''Complete Test Suite'')]"

definition report_line :: "runner \<Rightarrow> fs \<Rightarrow> string \<times> string \<Rightarrow> event" where
  "report_line self files entry =
     (case entry of (filename, description) \<Rightarrow>
        (let filepath = joinpath (reports_dir self) filename
         in Printed (Report_Line (filepath \<in> files) description filepath)))"

definition coverage_path :: "runner \<Rightarrow> path" where
  "coverage_path self = joinpath (joinpath (reports_dir self) ''full-coverage'') ''index.html''"

definition tools_used :: "event list" where
  "tools_used =
     [Printed Tools_Heading,
      Printed (Tool ''pytest: Test framework''),
      Printed (Tool ''Factory Boy: Test data generation''),
      Printed (Tool ''Responses: HTTP mocking''),
      Printed (Tool ''pytest-mock: Function mocking''),
      Printed (Tool ''pytest-cov: Code coverage''),
      Printed (Tool ''Bandit: Security scanning'')]"

definition generate_summary :: "runner \<Rightarrow> fs \<Rightarrow> event list \<times> fs" where
  "generate_summary self files =
     ([Printed Rule, Printed Summary_Title, Printed Rule, Printed Reports_Heading]
      @ map (report_line self files) reports
      @ (if coverage_path self \<in> files then [Printed (Coverage_Line (coverage_path self))] else [])
      @ [Printed (All_Reports (reports_dir self))]
      @ tools_used,
      files)"

subsection \<open>main\<close>

text \<open>
  The parsed arguments: one flag for each category. The parser's group is
  mutually exclusive and required, so exactly one flag is set; \<open>args_for\<close> gives the
  arguments for each category.
\<close>

record args =
  api :: bool
  database :: bool
  unit :: bool
  integration :: bool
  security :: bool
  all :: bool

datatype category = API | Database | Unit | Integration | Security | All

definition no_args :: args where
  "no_args = \<lparr>api = False, database = False, unit = False, integration = False,
               security = False, all = False\<rparr>"

fun args_for :: "category \<Rightarrow> args" where
  "args_for API = no_args\<lparr>api := True\<rparr>"
| "args_for Database = no_args\<lparr>database := True\<rparr>"
| "args_for Unit = no_args\<lparr>unit := True\<rparr>"
| "args_for Integration = no_args\<lparr>integration := True\<rparr>"
| "args_for Security = no_args\<lparr>security := True\<rparr>"
| "args_for All = no_args\<lparr>all := True\<rparr>"

text \<open>
  The chain of \<^verbatim>\<open>if\<close>/\<^verbatim>\<open>elif\<close> in \<^verbatim>\<open>main\<close>. When no branch is taken the variable
  \<^verbatim>\<open>success\<close> stays unbound: the result is \<open>None\<close>.
\<close>

definition lift_bound ::
  "(base_exc + bool) \<times> event list \<times> fs \<Rightarrow> (base_exc + bool option) \<times> event list \<times> fs" where
  "lift_bound r = (case r of (res, tr, files) \<Rightarrow> (map_sum id Some res, tr, files))"

definition run_selected ::
  "args \<Rightarrow> runner \<Rightarrow> os \<Rightarrow> fs \<Rightarrow> (base_exc + bool option) \<times> event list \<times> fs" where
  "run_selected a self sys files =
     (if api a then lift_bound (run_api_tests self sys files)
      else if database a then lift_bound (run_database_tests self sys files)
      else if unit a then lift_bound (run_unit_tests self sys files)
      else if integration a then lift_bound (run_integration_tests self sys files)
      else if security a then lift_bound (run_security_scan self sys files)
      else if all a then lift_bound (run_all_tests self sys files)
      else (Inr None, [], files))"

text \<open>
  How the process ends: \<^verbatim>\<open>sys.exit(n)\<close>, or an exception that nothing catches, for
  which the interpreter prints a stack trace.
\<close>

datatype ending = Exit int | Traceback base_exc

definition main :: "args \<Rightarrow> path \<Rightarrow> os \<Rightarrow> fs \<Rightarrow> ending \<times> event list \<times> fs" where
  "main a script_dir sys files0 =
     (case init_runner script_dir files0 of (self, files1) \<Rightarrow>
        (case run_selected a self sys files1 of
           (Inr success, tr, files2) \<Rightarrow>
             (case generate_summary self files2 of (summary, files3) \<Rightarrow>
                (case success of
                   Some ok \<Rightarrow> (Exit (if ok then 0 else 1), tr @ summary, files3)
                 | None \<Rightarrow> (Traceback (Exception UnboundLocalError), tr @ summary, files3)))
         | (Inl KeyboardInterrupt, tr, files2) \<Rightarrow>
             (Exit 130, tr @ [Printed Interrupted_Message], files2)
         | (Inl e, tr, files2) \<Rightarrow> (Traceback e, tr, files2)))"

text \<open>Observations on a run: the commands started, in order, and what the summary printed.\<close>

definition commands_run :: "event list \<Rightarrow> string list list" where
  "commands_run tr = concat (map (\<lambda>e. case e of Ran command cwd \<Rightarrow> [command] | Printed l \<Rightarrow> []) tr)"

definition summary_printed :: "event list \<Rightarrow> bool" where
  "summary_printed tr = (Printed Summary_Title \<in> set tr)"

definition report_entries :: "event list \<Rightarrow> (bool \<times> string \<times> path) list" where
  "report_entries tr =
     concat (map (\<lambda>e. case e of Printed (Report_Line present label p) \<Rightarrow> [(present, label, p)]
                               | _ \<Rightarrow> []) tr)"

definition coverage_lines :: "event list \<Rightarrow> path list" where
  "coverage_lines tr =
     concat (map (\<lambda>e. case e of Printed (Coverage_Line p) \<Rightarrow> [p] | _ \<Rightarrow> []) tr)"

section \<open>The verification sequence (verify\_backend\_tests.py)\<close>

subsection \<open>The environment\<close>

text \<open>
  Everything the eight checks ask of the outside world, one field for each call:
  the interpreter's version, the import of a module by name, the HTTP request, the
  temporary file, the steps of the SQLite session, reading and compiling a source
  file, and a child process run with a timeout. A call that can raise returns the
  exception (\<open>Some e\<close>, or \<open>Inl e\<close> when there is a value to return otherwise).
  The import of a module by name answers both \<^verbatim>\<open>importlib.import_module\<close> in the
  package check and the \<^verbatim>\<open>import\<close> statements at the head of the module.
  Only subclasses of \<^verbatim>\<open>Exception\<close> are raised here: the script has no handler for
  an interrupt, which is not modelled for it.
\<close>

datatype sql_statement = Create_Table | Insert_Row | Select_Row

datatype sql_value = SQL_Null | SQL_Int int | SQL_Text string

record completed =
  returncode :: int
  stdout :: string
  stderr :: string

record environment =
  version_info :: "int \<times> int \<times> int"
  import_module :: "string \<Rightarrow> exc option"
  requests_get :: "string \<Rightarrow> nat \<Rightarrow> exc + int"
  named_temporary_file :: "exc + path"
  sqlite_connect :: "path \<Rightarrow> exc option"
  conn_cursor :: "exc option"
  cursor_execute :: "sql_statement \<Rightarrow> exc option"
  cursor_fetchone :: "exc + sql_value list option"
  conn_commit :: "exc option"
  conn_close :: "exc option"
  path_unlink :: "path \<Rightarrow> exc option"
  open_read :: "string \<Rightarrow> exc + string"
  compile_source :: "string \<Rightarrow> string \<Rightarrow> exc option"
  run_with_timeout :: "string list \<Rightarrow> nat \<Rightarrow> exc + completed"
  sys_executable :: string
  script_parent :: path

text \<open>
  The lines the script prints. \<open>Heading\<close> is the first line of a check (``Checking
  Python version...''), \<open>Ok\<close> a line with the check mark, \<open>Bad\<close> a line with the
  cross; values formatted into a line (version numbers, the text of an exception,
  captured output) are left out of its text. \<open>Passed_Count n total\<close> is the line
  ``Passed: n/total checks''.
\<close>

datatype vline =
    Title
  | Bar
  | Heading string
  | Ok string
  | Bad string
  | Info string
  | Passed_Count nat nat

type_synonym check = "environment \<Rightarrow> fs \<Rightarrow> (exc + bool) \<times> vline list \<times> fs"

subsection \<open>The eight checks\<close>

definition check_python_version :: check where
  "check_python_version env files =
     (case version_info env of (major, minor, micro) \<Rightarrow>
        if major = 3 \<and> minor \<ge> 9
        then (Inr True, [Heading ''Checking Python version...'', Ok ''Python - Compatible''], files)
        else (Inr False,
              [Heading ''Checking Python version...'', Bad ''Python - Requires Python 3.9+''],
              files))"

definition required_packages :: "string list" where
  "required_packages = [''pytest'', ''requests'', ''responses'', ''factory_boy'', ''faker'',
     ''coverage'', ''bandit'', ''safety'']"

text \<open>
  The loop of \<^verbatim>\<open>check_required_packages\<close>: \<^verbatim>\<open>ImportError\<close> is caught and the package
  recorded as missing; any other exception leaves the function.
\<close>

fun probe_packages ::
  "environment \<Rightarrow> string list \<Rightarrow> string list \<Rightarrow> (exc + string list) \<times> vline list" where
  "probe_packages env [] missing_packages = (Inr missing_packages, [])"
| "probe_packages env (package # rest) missing_packages =
     (case import_module env (if package = ''factory_boy'' then ''factory'' else package) of
        None \<Rightarrow>
          (case probe_packages env rest missing_packages of
             (r, out) \<Rightarrow> (r, Ok (package @ '' - Installed'') # out))
      | Some ImportError \<Rightarrow>
          (case probe_packages env rest (missing_packages @ [package]) of
             (r, out) \<Rightarrow> (r, Bad (package @ '' - Missing'') # out))
      | Some e \<Rightarrow> (Inl e, []))"

definition check_required_packages :: check where
  "check_required_packages env files =
     (case probe_packages env required_packages [] of
        (Inl e, out) \<Rightarrow> (Inl e, Heading ''Checking required packages...'' # out, files)
      | (Inr missing_packages, out) \<Rightarrow>
          if missing_packages \<noteq> []
          then (Inr False,
                Heading ''Checking required packages...'' # out
                  @ [Info ''Missing packages'', Info ''Install with: pip install''],
                files)
          else (Inr True, Heading ''Checking required packages...'' # out, files))"

definition check_internet_connectivity :: check where
  "check_internet_connectivity env files =
     (case requests_get env ''https://jsonplaceholder.typicode.com/posts/1'' 10 of
        Inr status_code \<Rightarrow>
          if status_code = 200
          then (Inr True,
                [Heading ''Checking internet connectivity...'', Ok ''Internet connectivity - OK'',
                 Ok ''JSONPlaceholder API - Accessible''],
                files)
          else (Inr False,
                [Heading ''Checking internet connectivity...'',
                 Bad ''JSONPlaceholder API returned status''],
                files)
      | Inl RequestException \<Rightarrow>
          (Inr False,
           [Heading ''Checking internet connectivity...'', Bad ''Internet connectivity failed''],
           files)
      | Inl e \<Rightarrow> (Inl e, [Heading ''Checking internet connectivity...''], files))"

text \<open>
  \<^verbatim>\<open>Path(db_path).unlink()\<close> removes the file, or raises when the file is not there
  or the system refuses.
\<close>

definition unlink :: "environment \<Rightarrow> path \<Rightarrow> fs \<Rightarrow> (exc + unit) \<times> fs" where
  "unlink env p files =
     (if p \<in> files
      then (case path_unlink env p of
              Some e \<Rightarrow> (Inl e, files)
            | None \<Rightarrow> (Inr (), files - {p}))
      else (Inl FileNotFoundError, files))"

text \<open>
  \<^verbatim>\<open>result and result[1] == "Test User"\<close>: \<^verbatim>\<open>None\<close> and the empty row are false; a row
  of one column raises \<^verbatim>\<open>IndexError\<close> at index 1.
\<close>

definition row_ok :: "sql_value list option \<Rightarrow> exc + bool" where
  "row_ok result =
     (case result of
        None \<Rightarrow> Inr False
      | Some row \<Rightarrow>
          if row = [] then Inr False
          else if length row < 2 then Inl IndexError
          else Inr (row ! 1 = SQL_Text ''Test User''))"

text \<open>One statement of the \<^verbatim>\<open>try\<close> block: an exception ends the block with the files as they are.\<close>

definition after :: "exc option \<Rightarrow> fs \<Rightarrow> (exc + 'a) \<times> fs \<Rightarrow> (exc + 'a) \<times> fs" where
  "after r files rest = (case r of Some e \<Rightarrow> (Inl e, files) | None \<Rightarrow> rest)"

text \<open>
  The \<^verbatim>\<open>try\<close> block of \<^verbatim>\<open>check_database_functionality\<close>, statement by statement. The
  temporary file is created with \<^verbatim>\<open>delete=False\<close>, so it stays when its \<^verbatim>\<open>with\<close> block
  ends; the only statement that removes it is the \<^verbatim>\<open>unlink\<close> after \<^verbatim>\<open>conn.close()\<close>.
\<close>

definition database_try :: "environment \<Rightarrow> fs \<Rightarrow> (exc + bool) \<times> fs" where
  "database_try env files =
     (case named_temporary_file env of
        Inl e \<Rightarrow> (Inl e, files)
      | Inr db_path \<Rightarrow>
          (let files1 = insert db_path files in
           after (sqlite_connect env db_path) files1
          (after (conn_cursor env) files1
          (after (cursor_execute env Create_Table) files1
          (after (cursor_execute env Insert_Row) files1
          (after (cursor_execute env Select_Row) files1
          (case cursor_fetchone env of
             Inl e \<Rightarrow> (Inl e, files1)
           | Inr result \<Rightarrow>
               after (conn_commit env) files1
              (after (conn_close env) files1
              (case unlink env db_path files1 of
                 (Inl e, files2) \<Rightarrow> (Inl e, files2)
               | (Inr u, files2) \<Rightarrow> (row_ok result, files2))))))))))"

definition check_database_functionality :: check where
  "check_database_functionality env files =
     (case database_try env files of
        (Inr ok, files') \<Rightarrow>
          if ok
          then (Inr True,
                [Heading ''Checking database functionality...'', Ok ''SQLite database - Working''],
                files')
          else (Inr False,
                [Heading ''Checking database functionality...'',
                 Bad ''SQLite database - Data retrieval failed''],
                files')
      | (Inl e, files') \<Rightarrow>
          (Inr False,
           [Heading ''Checking database functionality...'', Bad ''SQLite database error''],
           files'))"

definition test_files :: "string list" where
  "test_files = [''backend/blackbox/test_api_simple.py'',
     ''backend/blackbox/test_database_simple.py'',
     ''backend/whitebox/test_unit_simple.py'',
     ''backend/test_integration_simple.py'']"

fun files_exist_loop :: "path \<Rightarrow> fs \<Rightarrow> string list \<Rightarrow> bool \<Rightarrow> bool \<times> vline list" where
  "files_exist_loop base_path files [] all_exist = (all_exist, [])"
| "files_exist_loop base_path files (test_file # rest) all_exist =
     (if joinpath base_path test_file \<in> files
      then (case files_exist_loop base_path files rest all_exist of
              (r, out) \<Rightarrow> (r, Ok (test_file @ '' - Exists'') # out))
      else (case files_exist_loop base_path files rest False of
              (r, out) \<Rightarrow> (r, Bad (test_file @ '' - Missing'') # out)))"

definition check_test_files_exist :: check where
  "check_test_files_exist env files =
     (case files_exist_loop (script_parent env) files test_files True of
        (all_exist, out) \<Rightarrow> (Inr all_exist, Heading ''Checking test files...'' # out, files))"

text \<open>
  The body of the \<^verbatim>\<open>try\<close> in \<^verbatim>\<open>run_syntax_check\<close>: open the file, read it, compile
  what was read.
\<close>

definition open_and_compile :: "environment \<Rightarrow> string \<Rightarrow> exc option" where
  "open_and_compile env test_file =
     (case open_read env test_file of
        Inl e \<Rightarrow> Some e
      | Inr source \<Rightarrow> compile_source env source test_file)"

fun syntax_loop :: "environment \<Rightarrow> string list \<Rightarrow> bool \<Rightarrow> (exc + bool) \<times> vline list" where
  "syntax_loop env [] all_valid = (Inr all_valid, [])"
| "syntax_loop env (test_file # rest) all_valid =
     (case open_and_compile env test_file of
        None \<Rightarrow>
          (case syntax_loop env rest all_valid of
             (r, out) \<Rightarrow> (r, Ok (test_file @ '' - Syntax OK'') # out))
      | Some SyntaxError \<Rightarrow>
          (case syntax_loop env rest False of
             (r, out) \<Rightarrow> (r, Bad (test_file @ '' - Syntax Error'') # out))
      | Some FileNotFoundError \<Rightarrow>
          (case syntax_loop env rest False of
             (r, out) \<Rightarrow> (r, Bad (test_file @ '' - File not found'') # out))
      | Some e \<Rightarrow> (Inl e, []))"

definition run_syntax_check :: check where
  "run_syntax_check env files =
     (case syntax_loop env test_files True of
        (r, out) \<Rightarrow> (r, Heading ''Checking Python syntax...'' # out, files))"

definition quick_test_command :: "environment \<Rightarrow> string list" where
  "quick_test_command env =
     [sys_executable env, ''-m'', ''pytest'', ''backend/'', ''--collect-only'', ''-q'']"

definition run_quick_test :: check where
  "run_quick_test env files =
     (case run_with_timeout env (quick_test_command env) 30 of
        Inr result \<Rightarrow>
          if returncode result = 0
          then (Inr True,
                [Heading ''Running quick pytest verification...'', Ok ''Pytest collection - OK'',
                 Info ''Found tests in output''],
                files)
          else (Inr False,
                [Heading ''Running quick pytest verification...'', Bad ''Pytest collection failed''],
                files)
      | Inl TimeoutExpired \<Rightarrow>
          (Inr False,
           [Heading ''Running quick pytest verification...'', Bad ''Pytest collection - Timeout''],
           files)
      | Inl e \<Rightarrow>
          (Inr False,
           [Heading ''Running quick pytest verification...'', Bad ''Pytest collection error''],
           files))"

definition sample_test_command :: "environment \<Rightarrow> string list" where
  "sample_test_command env =
     [sys_executable env, ''-m'', ''pytest'',
      ''backend/blackbox/test_api_simple.py::TestAPIBlackBox::test_get_posts'',
      ''-v'', ''--tb=short'']"

definition run_sample_backend_test :: check where
  "run_sample_backend_test env files =
     (case run_with_timeout env (sample_test_command env) 60 of
        Inr result \<Rightarrow>
          if returncode result = 0
          then (Inr True,
                [Heading ''Running sample backend test...'', Ok ''Sample backend test - PASSED'',
                 Info ''Backend testing is working correctly!''],
                files)
          else (Inr False,
                [Heading ''Running sample backend test...'', Bad ''Sample backend test - FAILED'',
                 Info ''Error output''],
                files)
      | Inl TimeoutExpired \<Rightarrow>
          (Inr False,
           [Heading ''Running sample backend test...'', Bad ''Sample test - Timeout''],
           files)
      | Inl e \<Rightarrow>
          (Inr False,
           [Heading ''Running sample backend test...'', Bad ''Sample test error''],
           files))"

subsection \<open>The sequence\<close>

definition checks :: "(string \<times> check) list" where
  "checks =
     [(''Python Version'', check_python_version),
      (''Required Packages'', check_required_packages),
      (''Internet Connectivity'', check_internet_connectivity),
      (''Database Functionality'', check_database_functionality),
      (''Test Files'', check_test_files_exist),
      (''Python Syntax'', run_syntax_check),
      (''Pytest Collection'', run_quick_test),
      (''Sample Test'', run_sample_backend_test)]"

text \<open>
  The loop of \<^verbatim>\<open>main\<close>: a check that returns true adds one to \<open>passed_checks\<close>; a
  check that raises is reported and the loop goes on.
\<close>

fun run_checks ::
  "(string \<times> check) list \<Rightarrow> environment \<Rightarrow> nat \<Rightarrow> fs \<Rightarrow> nat \<times> vline list \<times> fs" where
  "run_checks [] env passed_checks files = (passed_checks, [], files)"
| "run_checks ((check_name, check_function) # rest) env passed_checks files =
     (case check_function env files of
        (Inr ok, out, files') \<Rightarrow>
          (case run_checks rest env (if ok then passed_checks + 1 else passed_checks) files' of
             (n, out', files'') \<Rightarrow> (n, out @ out', files''))
      | (Inl e, out, files') \<Rightarrow>
          (case run_checks rest env passed_checks files' of
             (n, out', files'') \<Rightarrow>
               (n, out @ Bad (check_name @ '' - Unexpected error'') # out', files'')))"

text \<open>The function \<^verbatim>\<open>main\<close> of the script, from its first line to its \<^verbatim>\<open>return\<close>.\<close>

definition verify_main :: "environment \<Rightarrow> fs \<Rightarrow> bool \<times> vline list \<times> fs" where
  "verify_main env files =
     (let total_checks = length checks in
      case run_checks checks env 0 files of
        (passed_checks, out, files') \<Rightarrow>
          if passed_checks = total_checks
          then (True,
                [Title, Bar] @ out
                  @ [Bar, Info ''VERIFICATION SUMMARY'', Passed_Count passed_checks total_checks,
                     Info ''ALL CHECKS PASSED! Backend testing is ready to use.'',
                     Info ''You can now run:'',
                     Info ''python run_backend_tests.py --all'',
                     Info ''pytest backend/ -v''],
                files')
          else (False,
                [Title, Bar] @ out
                  @ [Bar, Info ''VERIFICATION SUMMARY'', Passed_Count passed_checks total_checks,
                     Info ''checks failed. Please fix the issues above.''],
                files'))"

text \<open>
  The script as a whole. It starts with the imports at the head of the module
  (lines 9 to 15); all but \<^verbatim>\<open>requests\<close> (line 12) are modules of the standard
  library. An import that fails there raises \<^verbatim>\<open>ModuleNotFoundError\<close>, a subclass of
  \<^verbatim>\<open>ImportError\<close>, which nothing catches: the interpreter prints a stack trace and
  \<^verbatim>\<open>main\<close> is never called. Otherwise the script ends with its last two lines,
  \<^verbatim>\<open>success = main()\<close> and \<^verbatim>\<open>sys.exit(0 if success else 1)\<close>.
\<close>

definition verify_script :: "environment \<Rightarrow> fs \<Rightarrow> ending \<times> vline list \<times> fs" where
  "verify_script env files =
     (case import_module env ''requests'' of
        Some e \<Rightarrow> (Traceback (Exception e), [], files)
      | None \<Rightarrow>
          (case verify_main env files of
             (success, out, files') \<Rightarrow> (Exit (if success then 0 else 1), out, files')))"

section \<open>Auxiliary definitions for the statements\<close>

subsection \<open>Reading a run of the test runner\<close>

text \<open>
  What \<^verbatim>\<open>run_command\<close> prints, and the call it makes, before the outcome of the child
  is known.
\<close>

definition started :: "runner \<Rightarrow> string list \<Rightarrow> string \<Rightarrow> event list" where
  "started self command description =
     [Printed Rule, Printed (Running description), Printed Rule, Ran command (base_dir self)]"

text \<open>The runner that \<^verbatim>\<open>__init__\<close> builds for a script in directory \<open>d\<close>.\<close>

definition the_runner :: "path \<Rightarrow> runner" where
  "the_runner d = \<lparr>base_dir = d, reports_dir = d @ [''reports'']\<rparr>"

text \<open>
  The commands each category hands to \<^verbatim>\<open>run_command\<close>, in order, and the description
  that goes with the first of them (read off \<^verbatim>\<open>run_api_tests\<close>, ...,
  \<^verbatim>\<open>run_security_scan\<close>, \<^verbatim>\<open>run_all_tests\<close>).
\<close>

definition category_commands :: "category \<Rightarrow> string list list" where
  "category_commands c =
     (case c of API \<Rightarrow> [api_command] | Database \<Rightarrow> [database_command]
      | Unit \<Rightarrow> [unit_command] | Integration \<Rightarrow> [integration_command]
      | Security \<Rightarrow> [bandit_command, safety_command] | All \<Rightarrow> [all_command])"

definition category_description :: "category \<Rightarrow> string" where
  "category_description c =
     (case c of API \<Rightarrow> ''API Black Box Tests'' | Database \<Rightarrow> ''Database Tests with Factory Boy''
      | Unit \<Rightarrow> ''Unit Tests with Coverage'' | Integration \<Rightarrow> ''Integration Tests''
      | Security \<Rightarrow> ''Security Scan'' | All \<Rightarrow> ''All Backend Tests'')"

text \<open>The paths a printed line shows.\<close>

definition mentioned_paths :: "event \<Rightarrow> path list" where
  "mentioned_paths e =
     (case e of
        Printed (Report_Line present label p) \<Rightarrow> [p]
      | Printed (Coverage_Line p) \<Rightarrow> [p]
      | Printed (All_Reports p) \<Rightarrow> [p]
      | _ \<Rightarrow> [])"

subsection \<open>Concrete operating systems\<close>

definition nothing_starts :: os where
  "nothing_starts cwd command = Not_Started"

definition all_pass :: os where
  "all_pass cwd command = Exited 0 {}"

definition bandit_fails :: os where
  "bandit_fails cwd command = (if command = bandit_command then Exited 1 {} else Exited 0 {})"

definition bandit_missing :: os where
  "bandit_missing cwd command = (if command = bandit_command then Not_Started else Exited 0 {})"

definition interrupt_at_safety :: os where
  "interrupt_at_safety cwd command =
     (if command = safety_command then Interrupted else Exited 0 {})"

definition unit_writes_coverage :: os where
  "unit_writes_coverage cwd command =
     Exited 0 {cwd @ [''reports'', ''unit-tests.html''],
               cwd @ [''reports'', ''coverage'', ''index.html'']}"

subsection \<open>Reading a run of the verification sequence\<close>

text \<open>
  Versions compare as Python compares tuples: first the major number, then the
  minor one. This is the reading of ``interpreter version at least the minimum''.
\<close>

definition version_at_least :: "int \<times> int \<Rightarrow> int \<times> int \<Rightarrow> bool" where
  "version_at_least v minimum =
     (fst v > fst minimum \<or> (fst v = fst minimum \<and> snd v \<ge> snd minimum))"

text \<open>
  The lines that mark progress: the heading each check prints first, and the line
  with the count.
\<close>

fun is_milestone :: "vline \<Rightarrow> bool" where
  "is_milestone (Heading h) = True"
| "is_milestone (Passed_Count n m) = True"
| "is_milestone l = False"

definition milestones :: "vline list \<Rightarrow> vline list" where
  "milestones out = filter is_milestone out"

text \<open>
  The result of each check of a list, every check run on the files its predecessors
  left, whatever their results were.
\<close>

fun check_results :: "(string \<times> check) list \<Rightarrow> environment \<Rightarrow> fs \<Rightarrow> (exc + bool) list" where
  "check_results [] env files = []"
| "check_results ((check_name, check_function) # rest) env files =
     (case check_function env files of
        (r, out, files') \<Rightarrow> r # check_results rest env files')"

definition count_passed :: "(exc + bool) list \<Rightarrow> nat" where
  "count_passed rs = length (filter (\<lambda>r. r = Inr True) rs)"

definition check_headings :: "string list" where
  "check_headings =
     [''Checking Python version...'',
      ''Checking required packages...'',
      ''Checking internet connectivity...'',
      ''Checking database functionality...'',
      ''Checking test files...'',
      ''Checking Python syntax...'',
      ''Running quick pytest verification...'',
      ''Running sample backend test...'']"

subsection \<open>Concrete environments\<close>

text \<open>
  An environment in which every check passes (with \<open>repo_files\<close> as the files), and
  variations of it with one defect each.
\<close>

definition healthy :: environment where
  "healthy =
     \<lparr>version_info = (3, 11, 4),
      import_module = (\<lambda>name. None),
      requests_get = (\<lambda>url timeout. Inr 200),
      named_temporary_file = Inr [''tmp'', ''tmpk3x9.db''],
      sqlite_connect = (\<lambda>p. None),
      conn_cursor = None,
      cursor_execute = (\<lambda>statement. None),
      cursor_fetchone =
        Inr (Some [SQL_Int 1, SQL_Text ''Test User'', SQL_Text ''test@example.com'']),
      conn_commit = None,
      conn_close = None,
      path_unlink = (\<lambda>p. None),
      open_read = (\<lambda>name. Inr []),
      compile_source = (\<lambda>source name. None),
      run_with_timeout = (\<lambda>command timeout. Inr \<lparr>returncode = 0, stdout = [], stderr = []\<rparr>),
      sys_executable = ''python3'',
      script_parent = [''repo'']\<rparr>"

definition repo_files :: fs where
  "repo_files =
     {[''repo'', ''backend'', ''blackbox'', ''test_api_simple.py''],
      [''repo'', ''backend'', ''blackbox'', ''test_database_simple.py''],
      [''repo'', ''backend'', ''whitebox'', ''test_unit_simple.py''],
      [''repo'', ''backend'', ''test_integration_simple.py'']}"

definition python_4_0 :: environment where
  "python_4_0 = healthy\<lparr>version_info := (4, 0, 0)\<rparr>"

definition create_table_fails :: environment where
  "create_table_fails =
     healthy\<lparr>cursor_execute :=
       (\<lambda>statement. if statement = Create_Table
                    then Some (OtherError ''sqlite3.OperationalError'') else None)\<rparr>"

definition always_times_out :: environment where
  "always_times_out = healthy\<lparr>run_with_timeout := (\<lambda>command timeout. Inl TimeoutExpired)\<rparr>"

definition requests_missing :: environment where
  "requests_missing =
     healthy\<lparr>import_module := (\<lambda>name. if name = ''requests'' then Some ImportError else None)\<rparr>"

definition faker_missing :: environment where
  "faker_missing =
     healthy\<lparr>import_module := (\<lambda>name. if name = ''faker'' then Some ImportError else None)\<rparr>"

declare args_for.simps [simp del]

section \<open>The test runner: results\<close>

subsection \<open>Reading traces\<close>

lemma commands_run_simps:
  "commands_run [] = []"
  "commands_run (Printed l # tr) = commands_run tr"
  "commands_run (Ran c cwd # tr) = c # commands_run tr"
  by (simp_all add: commands_run_def)

lemma commands_run_append: "commands_run (xs @ ys) = commands_run xs @ commands_run ys"
  by (simp add: commands_run_def)

lemma commands_run_started: "commands_run (started self c d) = [c]"
  by (simp add: commands_run_def started_def)

lemma commands_run_generate: "commands_run (fst (generate_summary self files)) = []"
  by (simp add: commands_run_def generate_summary_def report_line_def reports_def tools_used_def
        Let_def)

lemma summary_printed_simps:
  "summary_printed [] = False"
  "summary_printed (e # tr) = (e = Printed Summary_Title \<or> summary_printed tr)"
  by (auto simp: summary_printed_def)

lemma summary_printed_append:
  "summary_printed (xs @ ys) = (summary_printed xs \<or> summary_printed ys)"
  by (auto simp: summary_printed_def)

lemma summary_printed_started: "\<not> summary_printed (started self c d)"
  by (simp add: summary_printed_def started_def)

lemma summary_printed_generate: "summary_printed (fst (generate_summary self files))"
  by (simp add: summary_printed_def generate_summary_def)

lemma report_entries_simps:
  "report_entries [] = []"
  "report_entries (Printed (Report_Line b l p) # tr) = (b, l, p) # report_entries tr"
  "report_entries (Ran c cwd # tr) = report_entries tr"
  "report_entries (Printed Rule # tr) = report_entries tr"
  "report_entries (Printed Summary_Title # tr) = report_entries tr"
  "report_entries (Printed Reports_Heading # tr) = report_entries tr"
  "report_entries (Printed (Coverage_Line p) # tr) = report_entries tr"
  "report_entries (Printed (All_Reports p) # tr) = report_entries tr"
  "report_entries (Printed Tools_Heading # tr) = report_entries tr"
  "report_entries (Printed (Tool s) # tr) = report_entries tr"
  by (simp_all add: report_entries_def)

lemma report_entries_append: "report_entries (xs @ ys) = report_entries xs @ report_entries ys"
  by (simp add: report_entries_def)

lemma coverage_lines_simps:
  "coverage_lines [] = []"
  "coverage_lines (Printed (Coverage_Line p) # tr) = p # coverage_lines tr"
  "coverage_lines (Ran c cwd # tr) = coverage_lines tr"
  "coverage_lines (Printed Rule # tr) = coverage_lines tr"
  "coverage_lines (Printed (Running s) # tr) = coverage_lines tr"
  "coverage_lines (Printed Completed # tr) = coverage_lines tr"
  "coverage_lines (Printed Failed # tr) = coverage_lines tr"
  "coverage_lines (Printed Summary_Title # tr) = coverage_lines tr"
  "coverage_lines (Printed Reports_Heading # tr) = coverage_lines tr"
  "coverage_lines (Printed (Report_Line b l p) # tr) = coverage_lines tr"
  "coverage_lines (Printed (All_Reports p) # tr) = coverage_lines tr"
  "coverage_lines (Printed Tools_Heading # tr) = coverage_lines tr"
  "coverage_lines (Printed (Tool s) # tr) = coverage_lines tr"
  by (simp_all add: coverage_lines_def)

lemma coverage_lines_append: "coverage_lines (xs @ ys) = coverage_lines xs @ coverage_lines ys"
  by (simp add: coverage_lines_def)

lemma coverage_lines_started: "coverage_lines (started self c s) = []"
  by (simp add: started_def coverage_lines_simps)

subsection \<open>run\_command\<close>

text \<open>The three outcomes of a command, and what \<^verbatim>\<open>run_command\<close> makes of each.\<close>

lemma run_command_cases:
  "run_command self sys command description files =
     (case sys (base_dir self) command of
        Exited rc written \<Rightarrow>
          (Inr (rc = 0),
           started self command description @ [Printed (if rc = 0 then Completed else Failed)],
           files \<union> written)
      | Not_Started \<Rightarrow> (Inl (Exception FileNotFoundError), started self command description, files)
      | Interrupted \<Rightarrow> (Inl KeyboardInterrupt, started self command description, files))"
  by (simp add: run_command_def subprocess_run_def started_def split: proc_result.splits)

text \<open>
  Claim C6. For every command and description: when the child ran, \<^verbatim>\<open>run_command\<close>
  returns whether its exit status was 0, so a non-zero status is the result
  \<^verbatim>\<open>False\<close> and never an exception; it returns \<^verbatim>\<open>True\<close> exactly when the child exited
  with 0; a command that cannot be started raises \<^verbatim>\<open>FileNotFoundError\<close>; and an
  error (a subclass of \<^verbatim>\<open>Exception\<close>) leaves \<^verbatim>\<open>run_command\<close> only when the command
  could not be started. The user's interrupt, which is no \<^verbatim>\<open>Exception\<close>, passes
  through as well; claim C4 is about it.
\<close>

theorem run_command_exit_status:
  "(\<forall>rc written. sys (base_dir self) command = Exited rc written \<longrightarrow>
      fst (run_command self sys command description files) = Inr (rc = 0))
   \<and> (fst (run_command self sys command description files) = Inr True \<longleftrightarrow>
      (\<exists>written. sys (base_dir self) command = Exited 0 written))
   \<and> (sys (base_dir self) command = Not_Started \<longrightarrow>
      fst (run_command self sys command description files) = Inl (Exception FileNotFoundError))
   \<and> (\<forall>e. fst (run_command self sys command description files) = Inl (Exception e) \<longrightarrow>
      sys (base_dir self) command = Not_Started)"
  by (simp add: run_command_cases split: proc_result.splits)

theorem run_command_exit_status_witness:
  "fst (run_command (the_runner [''repo'']) all_pass bandit_command ''Security Scan'' {}) = Inr True
   \<and> fst (run_command (the_runner [''repo'']) bandit_fails bandit_command ''Security Scan'' {})
       = Inr False
   \<and> fst (run_command (the_runner [''repo'']) nothing_starts bandit_command ''Security Scan'' {})
       = Inl (Exception FileNotFoundError)"
  using run_command_exit_status
          [of all_pass "the_runner [''repo'']" bandit_command "''Security Scan''" "{}"]
        run_command_exit_status
          [of bandit_fails "the_runner [''repo'']" bandit_command "''Security Scan''" "{}"]
        run_command_exit_status
          [of nothing_starts "the_runner [''repo'']" bandit_command "''Security Scan''" "{}"]
  by (simp add: all_pass_def bandit_fails_def nothing_starts_def)

subsection \<open>run\_security\_scan\<close>

lemma security_cases:
  "run_security_scan self sys files =
     (case sys (base_dir self) bandit_command of
        Exited rc1 w1 \<Rightarrow>
          (case sys (base_dir self) safety_command of
             Exited rc2 w2 \<Rightarrow>
               (Inr (rc1 = 0 \<and> rc2 = 0),
                started self bandit_command ''Security Scan''
                  @ [Printed (if rc1 = 0 then Completed else Failed)]
                  @ started self safety_command ''Dependency Security Check''
                  @ [Printed (if rc2 = 0 then Completed else Failed)],
                files \<union> w1 \<union> w2)
           | Not_Started \<Rightarrow>
               (Inl (Exception FileNotFoundError),
                started self bandit_command ''Security Scan''
                  @ [Printed (if rc1 = 0 then Completed else Failed)]
                  @ started self safety_command ''Dependency Security Check'',
                files \<union> w1)
           | Interrupted \<Rightarrow>
               (Inl KeyboardInterrupt,
                started self bandit_command ''Security Scan''
                  @ [Printed (if rc1 = 0 then Completed else Failed)]
                  @ started self safety_command ''Dependency Security Check'',
                files \<union> w1))
      | Not_Started \<Rightarrow>
          (Inl (Exception FileNotFoundError), started self bandit_command ''Security Scan'', files)
      | Interrupted \<Rightarrow>
          (Inl KeyboardInterrupt, started self bandit_command ''Security Scan'', files))"
  by (simp add: run_security_scan_def security_commands_def run_command_cases
           split: proc_result.splits)

text \<open>
  Claim C3, as amended. In a security run whose first scan ran to an exit status,
  whatever that status is, the two scans are started in sequence, the
  static-analysis scan first and the dependency check second; and when the second
  scan ran to an exit status too, \<^verbatim>\<open>run_security_scan\<close> returns the conjunction of
  the two success values. So a first scan that fails and a second that succeeds
  give \<^verbatim>\<open>False\<close>, with the second scan started. When the command of the first scan
  cannot be started, the \<^verbatim>\<open>FileNotFoundError\<close> leaves the loop and
  \<^verbatim>\<open>run_security_scan\<close>, and the second scan is not started.
\<close>

theorem security_scan_runs_both:
  "(sys (base_dir self) bandit_command = Exited rc1 w1 \<longrightarrow>
      commands_run (fst (snd (run_security_scan self sys files)))
        = [bandit_command, safety_command]
      \<and> (\<forall>rc2 w2. sys (base_dir self) safety_command = Exited rc2 w2 \<longrightarrow>
            fst (run_security_scan self sys files) = Inr (rc1 = 0 \<and> rc2 = 0)))
   \<and> (sys (base_dir self) bandit_command = Not_Started \<longrightarrow>
      commands_run (fst (snd (run_security_scan self sys files))) = [bandit_command]
      \<and> fst (run_security_scan self sys files) = Inl (Exception FileNotFoundError))"
  by (simp add: security_cases commands_run_append commands_run_started commands_run_simps
           split: proc_result.splits)

theorem security_scan_runs_both_witness:
  "commands_run (fst (snd (run_security_scan (the_runner [''repo'']) bandit_fails {})))
     = [bandit_command, safety_command]
   \<and> fst (run_security_scan (the_runner [''repo'']) bandit_fails {}) = Inr False
   \<and> fst (run_security_scan (the_runner [''repo'']) bandit_missing {})
       = Inl (Exception FileNotFoundError)"
  using security_scan_runs_both
          [of bandit_fails "the_runner [''repo'']" 1 "{}" "{}"]
        security_scan_runs_both
          [of bandit_missing "the_runner [''repo'']" 0 "{}" "{}"]
  by (simp add: bandit_fails_def bandit_missing_def bandit_command_def safety_command_def)

text \<open>
  Claim C3 as stated fails: it is about every security run, and in the run where
  \<^verbatim>\<open>bandit\<close> is not installed, while \<^verbatim>\<open>safety\<close> is and would succeed, the first scan
  fails to start, only its command is handed to \<^verbatim>\<open>subprocess.run\<close>, and
  \<^verbatim>\<open>run_security_scan\<close> returns no value at all.
\<close>

theorem second_scan_skipped_when_first_not_started:
  "bandit_missing [''repo''] bandit_command = Not_Started
   \<and> bandit_missing [''repo''] safety_command = Exited 0 {}
   \<and> commands_run (fst (snd (run_security_scan (the_runner [''repo'']) bandit_missing {})))
       = [bandit_command]
   \<and> fst (run_security_scan (the_runner [''repo'']) bandit_missing {})
       = Inl (Exception FileNotFoundError)"
  by (simp add: security_cases bandit_missing_def the_runner_def commands_run_started
        bandit_command_def safety_command_def)

subsection \<open>main\<close>

lemma init_runner_simps:
  "init_runner d files = (the_runner d, insert (d @ [''reports'']) files)"
  by (simp add: init_runner_def the_runner_def joinpath_def Let_def)

lemma generate_summary_files: "snd (generate_summary self files) = files"
  by (simp add: generate_summary_def)

lemma run_selected_single:
  assumes "cat \<noteq> Security"
  shows "run_selected (args_for cat) self sys files =
           lift_bound (run_command self sys (hd (category_commands cat))
                         (category_description cat) files)"
  using assms
  by (cases cat)
     (simp_all add: args_for.simps run_selected_def no_args_def category_commands_def
        category_description_def run_api_tests_def run_database_tests_def run_unit_tests_def
        run_integration_tests_def run_all_tests_def)

lemma run_selected_security:
  "run_selected (args_for Security) self sys files = lift_bound (run_security_scan self sys files)"
  by (simp add: args_for.simps run_selected_def no_args_def)

text \<open>A run of a category with one command, by the outcome of that command.\<close>

lemma main_single:
  assumes "cat \<noteq> Security"
  shows "main (args_for cat) d sys files =
     (let self = the_runner d; files1 = insert (d @ [''reports'']) files;
          c = hd (category_commands cat); s = started self c (category_description cat)
      in case sys d c of
           Exited rc w \<Rightarrow>
             (Exit (if rc = 0 then 0 else 1),
              s @ [Printed (if rc = 0 then Completed else Failed)]
                @ fst (generate_summary self (files1 \<union> w)),
              files1 \<union> w)
         | Not_Started \<Rightarrow> (Traceback (Exception FileNotFoundError), s, files1)
         | Interrupted \<Rightarrow> (Exit 130, s @ [Printed Interrupted_Message], files1))"
  by (simp add: main_def init_runner_simps run_selected_single [OF assms] run_command_cases
        lift_bound_def the_runner_def Let_def generate_summary_files split_beta
        split: proc_result.splits)

text \<open>A security run, by the outcomes of its two commands.\<close>

lemma main_security:
  "main (args_for Security) d sys files =
     (let self = the_runner d; files1 = insert (d @ [''reports'']) files;
          s1 = started self bandit_command ''Security Scan'';
          s2 = started self safety_command ''Dependency Security Check''
      in case sys d bandit_command of
           Exited rc1 w1 \<Rightarrow>
             (case sys d safety_command of
                Exited rc2 w2 \<Rightarrow>
                  (Exit (if rc1 = 0 \<and> rc2 = 0 then 0 else 1),
                   s1 @ [Printed (if rc1 = 0 then Completed else Failed)]
                      @ s2 @ [Printed (if rc2 = 0 then Completed else Failed)]
                      @ fst (generate_summary self (files1 \<union> w1 \<union> w2)),
                   files1 \<union> w1 \<union> w2)
              | Not_Started \<Rightarrow>
                  (Traceback (Exception FileNotFoundError),
                   s1 @ [Printed (if rc1 = 0 then Completed else Failed)] @ s2, files1 \<union> w1)
              | Interrupted \<Rightarrow>
                  (Exit 130,
                   s1 @ [Printed (if rc1 = 0 then Completed else Failed)] @ s2
                      @ [Printed Interrupted_Message], files1 \<union> w1))
         | Not_Started \<Rightarrow> (Traceback (Exception FileNotFoundError), s1, files1)
         | Interrupted \<Rightarrow> (Exit 130, s1 @ [Printed Interrupted_Message], files1))"
  by (simp add: main_def init_runner_simps run_selected_security security_cases
        lift_bound_def the_runner_def Let_def generate_summary_files split_beta
        split: proc_result.splits)

lemma main_summary_single:
  assumes "cat \<noteq> Security"
  shows "summary_printed (fst (snd (main (args_for cat) d sys files)))
           = (\<exists>rc w. sys d (hd (category_commands cat)) = Exited rc w)"
  by (simp add: main_single [OF assms] Let_def summary_printed_append summary_printed_started
        summary_printed_generate summary_printed_simps split: proc_result.splits)

lemma main_summary_security:
  "summary_printed (fst (snd (main (args_for Security) d sys files)))
     = ((\<exists>rc w. sys d bandit_command = Exited rc w) \<and> (\<exists>rc w. sys d safety_command = Exited rc w))"
  by (simp add: main_security Let_def summary_printed_append summary_printed_started
        summary_printed_generate summary_printed_simps split: proc_result.splits)

text \<open>
  Claim C2, as amended. For every category, \<^verbatim>\<open>generate_summary\<close> is invoked before
  the process ends exactly when every command of the category ran to an exit
  status, zero or not. A command that cannot be started raises out of
  \<^verbatim>\<open>run_command\<close> and nothing in \<^verbatim>\<open>main\<close> catches it, so the process ends without
  the summary.
\<close>

theorem summary_iff_all_exited:
  "summary_printed (fst (snd (main (args_for cat) d sys files)))
     \<longleftrightarrow> (\<forall>c \<in> set (category_commands cat). \<exists>rc w. sys d c = Exited rc w)"
proof (cases "cat = Security")
  case True
  then show ?thesis by (simp add: main_summary_security category_commands_def)
next
  case False
  then show ?thesis
    by (cases cat) (simp_all add: main_summary_single category_commands_def)
qed

theorem summary_iff_all_exited_witness:
  "summary_printed (fst (snd (main (args_for Security) [''repo''] bandit_fails {})))"
  using summary_iff_all_exited [of Security "[''repo'']" bandit_fails "{}"]
  by (simp add: category_commands_def bandit_fails_def)

text \<open>
  Claim C2 as stated fails: the API run whose command cannot be started ends with
  the uncaught \<^verbatim>\<open>FileNotFoundError\<close> and no summary.
\<close>

theorem summary_skipped_when_not_started:
  "nothing_starts [''repo''] api_command = Not_Started
   \<and> fst (main (args_for API) [''repo''] nothing_starts {}) = Traceback (Exception FileNotFoundError)
   \<and> \<not> summary_printed (fst (snd (main (args_for API) [''repo''] nothing_starts {})))"
  by (simp add: main_single category_commands_def nothing_starts_def Let_def
        summary_printed_started)

lemma main_ending_single:
  assumes "cat \<noteq> Security"
  shows "fst (main (args_for cat) d sys files) =
     (case sys d (hd (category_commands cat)) of
        Exited rc w \<Rightarrow> Exit (if rc = 0 then 0 else 1)
      | Not_Started \<Rightarrow> Traceback (Exception FileNotFoundError)
      | Interrupted \<Rightarrow> Exit 130)"
  by (simp add: main_single [OF assms] Let_def split: proc_result.splits)

lemma main_commands_single:
  assumes "cat \<noteq> Security"
  shows "commands_run (fst (snd (main (args_for cat) d sys files))) = category_commands cat"
  using assms
  by (cases cat)
     (simp_all add: main_single Let_def commands_run_append commands_run_started
        commands_run_generate commands_run_simps category_commands_def split: proc_result.splits)

lemma main_ending_security:
  "fst (main (args_for Security) d sys files) =
     (case sys d bandit_command of
        Exited rc1 w1 \<Rightarrow>
          (case sys d safety_command of
             Exited rc2 w2 \<Rightarrow> Exit (if rc1 = 0 \<and> rc2 = 0 then 0 else 1)
           | Not_Started \<Rightarrow> Traceback (Exception FileNotFoundError)
           | Interrupted \<Rightarrow> Exit 130)
      | Not_Started \<Rightarrow> Traceback (Exception FileNotFoundError)
      | Interrupted \<Rightarrow> Exit 130)"
  by (simp add: main_security Let_def split: proc_result.splits)

lemma main_commands_security:
  "commands_run (fst (snd (main (args_for Security) d sys files))) =
     (case sys d bandit_command of
        Exited rc1 w1 \<Rightarrow> [bandit_command, safety_command]
      | _ \<Rightarrow> [bandit_command])"
  by (simp add: main_security Let_def commands_run_append commands_run_started
        commands_run_generate commands_run_simps split: proc_result.splits)

text \<open>
  Claim C4. For every category: when every command of the run exits with 0 the
  process ends with \<^verbatim>\<open>sys.exit(0)\<close>; when every command ran and one of them exited
  with another status it ends with \<^verbatim>\<open>sys.exit(1)\<close>; and when the interrupt arrives
  during a command that the run started it ends with \<^verbatim>\<open>sys.exit(130)\<close>, an exit and
  not an uncaught exception, so no stack trace is printed.
\<close>

theorem main_exit_code:
  "((\<forall>c \<in> set (category_commands cat). \<exists>w. sys d c = Exited 0 w) \<longrightarrow>
      fst (main (args_for cat) d sys files) = Exit 0)
   \<and> ((\<forall>c \<in> set (category_commands cat). \<exists>rc w. sys d c = Exited rc w) \<and>
       (\<exists>c \<in> set (category_commands cat). \<exists>rc w. sys d c = Exited rc w \<and> rc \<noteq> 0) \<longrightarrow>
      fst (main (args_for cat) d sys files) = Exit 1)
   \<and> ((\<exists>c \<in> set (commands_run (fst (snd (main (args_for cat) d sys files)))).
          sys d c = Interrupted) \<longrightarrow>
      fst (main (args_for cat) d sys files) = Exit 130)"
proof (cases "cat = Security")
  case True
  then show ?thesis
    by (auto simp: main_ending_security main_commands_security category_commands_def
          split: proc_result.splits)
next
  case False
  then show ?thesis
    by (cases cat)
       (auto simp: main_ending_single main_commands_single category_commands_def
          split: proc_result.splits)
qed

theorem main_exit_code_witness:
  "fst (main (args_for Unit) [''repo''] all_pass {}) = Exit 0
   \<and> fst (main (args_for Security) [''repo''] bandit_fails {}) = Exit 1
   \<and> fst (main (args_for Security) [''repo''] interrupt_at_safety {}) = Exit 130"
  using main_exit_code [of Unit all_pass "[''repo'']" "{}"]
        main_exit_code [of Security bandit_fails "[''repo'']" "{}"]
        main_exit_code [of Security interrupt_at_safety "[''repo'']" "{}"]
  by (simp add: category_commands_def all_pass_def bandit_fails_def interrupt_at_safety_def
        main_commands_security bandit_command_def safety_command_def)

subsection \<open>generate\_summary\<close>

lemma coverage_lines_generate:
  "coverage_lines (fst (generate_summary self files)) =
     (if coverage_path self \<in> files then [coverage_path self] else [])"
  by (simp add: generate_summary_def coverage_lines_append coverage_lines_simps
        report_line_def reports_def tools_used_def Let_def)

lemma report_entries_generate:
  "report_entries (fst (generate_summary self files)) =
     map (\<lambda>(filename, label).
            (joinpath (reports_dir self) filename \<in> files, label,
             joinpath (reports_dir self) filename)) reports"
  by (simp add: generate_summary_def report_entries_append report_entries_simps
        report_line_def reports_def tools_used_def Let_def)

text \<open>
  Claim C9. For every runner and every filesystem, the empty one included,
  \<^verbatim>\<open>generate_summary\<close> prints one entry for each of the five reports of its static
  list, in the order of the list, each marked present exactly when its file under
  the reports directory exists (so all five are marked absent when no file
  exists); it prints the path of the coverage index
  \<^verbatim>\<open>full-coverage/index.html\<close> exactly when that file exists; it leaves the
  filesystem as it was and starts no process.
\<close>

theorem generate_summary_reports:
  "report_entries (fst (generate_summary self files)) =
     map (\<lambda>(filename, label).
            (joinpath (reports_dir self) filename \<in> files, label,
             joinpath (reports_dir self) filename)) reports
   \<and> length (report_entries (fst (generate_summary self files))) = 5
   \<and> report_entries (fst (generate_summary self {})) =
       map (\<lambda>(filename, label). (False, label, joinpath (reports_dir self) filename)) reports
   \<and> coverage_lines (fst (generate_summary self files)) =
       (if joinpath (joinpath (reports_dir self) ''full-coverage'') ''index.html'' \<in> files
        then [joinpath (joinpath (reports_dir self) ''full-coverage'') ''index.html''] else [])
   \<and> snd (generate_summary self files) = files
   \<and> commands_run (fst (generate_summary self files)) = []"
proof -
  have five: "length reports = 5"
    by (simp add: reports_def)
  show ?thesis
    using five
    by (simp add: report_entries_generate coverage_lines_generate coverage_path_def
          generate_summary_files commands_run_generate)
qed

theorem generate_summary_reports_witness:
  "report_entries (fst (generate_summary (the_runner [''repo'']) {})) =
     [(False, ''API Tests'', [''repo'', ''reports'', ''api-tests.html'']),
      (False, ''Database Tests'', [''repo'', ''reports'', ''database-tests.html'']),
      (False, ''Unit Tests'', [''repo'', ''reports'', ''unit-tests.html'']),
      (False, ''Integration Tests'', [''repo'', ''reports'', ''integration-tests.html'']),
      (False, ''Complete Test Suite'', [''repo'', ''reports'', ''all-backend-tests.html''])]"
  using generate_summary_reports [of "the_runner [''repo'']" "{}"]
  by (simp add: reports_def the_runner_def joinpath_def)

lemma mentioned_generate:
  "concat (map mentioned_paths (fst (generate_summary self files))) =
     map (\<lambda>(filename, label). joinpath (reports_dir self) filename) reports
     @ (if coverage_path self \<in> files then [coverage_path self] else [])
     @ [reports_dir self]"
  by (simp add: generate_summary_def mentioned_paths_def report_line_def reports_def
        tools_used_def Let_def)

text \<open>
  Claim C10. The pointer to the coverage report is printed for the file
  \<^verbatim>\<open>reports/full-coverage/index.html\<close> and for no other; no line of the summary shows
  a path at or below \<^verbatim>\<open>reports/coverage\<close>, where the unit category has its coverage
  written. So a unit run that ran to an exit status, into a reports directory with
  nothing below it, and that did not write \<^verbatim>\<open>reports/full-coverage/index.html\<close>,
  prints no coverage pointer, whatever it wrote to \<^verbatim>\<open>reports/coverage\<close>.
\<close>

theorem coverage_pointer_only_full_coverage:
  "coverage_lines (fst (generate_summary self files)) =
     (if joinpath (joinpath (reports_dir self) ''full-coverage'') ''index.html'' \<in> files
      then [joinpath (joinpath (reports_dir self) ''full-coverage'') ''index.html''] else [])
   \<and> (\<forall>e \<in> set (fst (generate_summary self files)). \<forall>p \<in> set (mentioned_paths e).
         \<not> prefix (joinpath (reports_dir self) ''coverage'') p)
   \<and> (sys d unit_command = Exited rc written
       \<and> (\<forall>p \<in> files. \<not> strict_prefix (joinpath d ''reports'') p)
       \<and> joinpath (joinpath (joinpath d ''reports'') ''full-coverage'') ''index.html'' \<notin> written
       \<longrightarrow> coverage_lines (fst (snd (main (args_for Unit) d sys files))) = [])"
proof (intro conjI impI)
  show "coverage_lines (fst (generate_summary self files)) =
     (if joinpath (joinpath (reports_dir self) ''full-coverage'') ''index.html'' \<in> files
      then [joinpath (joinpath (reports_dir self) ''full-coverage'') ''index.html''] else [])"
    by (simp add: coverage_lines_generate coverage_path_def)
next
  have "\<forall>p \<in> set (concat (map mentioned_paths (fst (generate_summary self files)))).
          \<not> prefix (joinpath (reports_dir self) ''coverage'') p"
    unfolding mentioned_generate
    by (auto simp: reports_def joinpath_def coverage_path_def prefix_def)
  then show "\<forall>e \<in> set (fst (generate_summary self files)). \<forall>p \<in> set (mentioned_paths e).
         \<not> prefix (joinpath (reports_dir self) ''coverage'') p"
    by auto
next
  assume h: "sys d unit_command = Exited rc written
       \<and> (\<forall>p \<in> files. \<not> strict_prefix (joinpath d ''reports'') p)
       \<and> joinpath (joinpath (joinpath d ''reports'') ''full-coverage'') ''index.html'' \<notin> written"
  let ?cov = "d @ [''reports'', ''full-coverage'', ''index.html'']"
  have cov: "coverage_path (the_runner d) = ?cov"
    by (simp add: coverage_path_def the_runner_def joinpath_def)
  have "strict_prefix (d @ [''reports'']) ?cov"
    by (simp add: strict_prefix_def prefix_def)
  with h have 1: "?cov \<notin> files"
    by (auto simp: joinpath_def)
  from h have 2: "?cov \<notin> written"
    by (simp add: joinpath_def)
  have 3: "?cov \<noteq> d @ [''reports'']"
    by simp
  show "coverage_lines (fst (snd (main (args_for Unit) d sys files))) = []"
    using h 1 2 3
    by (simp add: main_single category_commands_def category_description_def Let_def
          coverage_lines_append coverage_lines_started coverage_lines_simps
          coverage_lines_generate cov)
qed

theorem coverage_pointer_only_full_coverage_witness:
  "coverage_lines (fst (snd (main (args_for Unit) [''repo''] unit_writes_coverage {}))) = []
   \<and> [''repo'', ''reports'', ''coverage'', ''index.html'']
       \<in> snd (snd (main (args_for Unit) [''repo''] unit_writes_coverage {}))"
proof -
  have "coverage_lines (fst (snd (main (args_for Unit) [''repo''] unit_writes_coverage {}))) = []"
    using coverage_pointer_only_full_coverage
            [of "the_runner [''repo'']" "{}" unit_writes_coverage "[''repo'']" 0
                "{[''repo'', ''reports'', ''unit-tests.html''],
                  [''repo'', ''reports'', ''coverage'', ''index.html'']}"]
    by (simp add: unit_writes_coverage_def joinpath_def)
  moreover have "[''repo'', ''reports'', ''coverage'', ''index.html'']
       \<in> snd (snd (main (args_for Unit) [''repo''] unit_writes_coverage {}))"
    by (simp add: main_single category_commands_def Let_def unit_writes_coverage_def)
  ultimately show ?thesis by simp
qed

section \<open>The verification sequence: results\<close>

subsection \<open>The interpreter version\<close>

text \<open>
  Claim C8, as amended. The version check passes exactly when the major version is
  3 and the version is at least 3.9: every 3.x version from 3.9 on passes, every
  version below 3.9 fails, and so does every version whose major number is not 3.
\<close>

theorem python_version_major_3_only:
  assumes "version_info env = (major, minor, micro)"
  shows "fst (check_python_version env files)
           = Inr (major = 3 \<and> version_at_least (major, minor) (3, 9))"
  using assms by (auto simp: check_python_version_def version_at_least_def)

theorem python_version_major_3_only_witness:
  "fst (check_python_version healthy {}) = Inr True"
  using python_version_major_3_only [of healthy 3 11 4 "{}"]
  by (simp add: healthy_def version_at_least_def)

text \<open>
  Claim C8 as stated fails: version 4.0 is at least 3.9, and the check returns
  \<^verbatim>\<open>False\<close> for it.
\<close>

theorem python_4_rejected:
  "version_info python_4_0 = (4, 0, 0)
   \<and> version_at_least (4, 0) (3, 9)
   \<and> fst (check_python_version python_4_0 {}) = Inr False"
  by (simp add: python_4_0_def healthy_def version_at_least_def check_python_version_def)

subsection \<open>The checks that run a child process\<close>

text \<open>
  Claim C7. When the collection dry run exceeds its 30 seconds, \<^verbatim>\<open>run_quick_test\<close>
  returns \<^verbatim>\<open>False\<close>; when the sample test exceeds its 60 seconds,
  \<^verbatim>\<open>run_sample_backend_test\<close> returns \<^verbatim>\<open>False\<close>; and neither check ever raises,
  whatever the call to the child process does.
\<close>

theorem timeout_is_failed_check:
  "(run_with_timeout env (quick_test_command env) 30 = Inl TimeoutExpired \<longrightarrow>
      fst (run_quick_test env files) = Inr False)
   \<and> (run_with_timeout env (sample_test_command env) 60 = Inl TimeoutExpired \<longrightarrow>
      fst (run_sample_backend_test env files) = Inr False)
   \<and> (\<forall>e. fst (run_quick_test env files) \<noteq> Inl e)
   \<and> (\<forall>e. fst (run_sample_backend_test env files) \<noteq> Inl e)"
  by (auto simp: run_quick_test_def run_sample_backend_test_def
        split: sum.splits exc.splits if_splits)

theorem timeout_is_failed_check_witness:
  "fst (run_quick_test always_times_out {}) = Inr False
   \<and> fst (run_sample_backend_test always_times_out {}) = Inr False"
  using timeout_is_failed_check [of always_times_out "{}"]
  by (simp add: always_times_out_def healthy_def)

subsection \<open>The database check\<close>

text \<open>
  On the paths of the \<^verbatim>\<open>try\<close> block that raise nothing, the temporary file is gone
  when the block ends: the \<^verbatim>\<open>unlink\<close> has run.
\<close>

lemma database_file_removed_without_exception:
  assumes "named_temporary_file env = Inr p" and "database_try env files = (Inr ok, files')"
  shows "p \<notin> files'"
  using assms
  by (auto simp: database_try_def after_def unlink_def Let_def
        split: option.splits sum.splits if_splits prod.splits)

lemma database_healthy:
  "check_database_functionality healthy {} =
     (Inr True,
      [Heading ''Checking database functionality...'', Ok ''SQLite database - Working''],
      {})"
  by (simp add: check_database_functionality_def database_try_def after_def unlink_def row_ok_def
        healthy_def)

text \<open>
  Claim C1 says that the temporary database file is gone after the check on every
  path, also when a statement of the create, insert or query phase raises. The
  code does not do that: the \<^verbatim>\<open>unlink\<close> is the last statement inside the \<^verbatim>\<open>try\<close>, so
  an exception before it goes to the handler, which returns \<^verbatim>\<open>False\<close> and removes
  nothing. Here \<^verbatim>\<open>CREATE TABLE\<close> raises: the check reports failure and the file
  \<^verbatim>\<open>/tmp/tmpk3x9.db\<close> is still there.
\<close>

theorem database_file_left_behind:
  "check_database_functionality create_table_fails {} =
     (Inr False,
      [Heading ''Checking database functionality...'', Bad ''SQLite database error''],
      {[''tmp'', ''tmpk3x9.db'']})"
  by (simp add: check_database_functionality_def database_try_def after_def
        create_table_fails_def healthy_def)

subsection \<open>The sequence of the eight checks\<close>

lemma milestones_append: "milestones (xs @ ys) = milestones xs @ milestones ys"
  by (simp add: milestones_def)

lemma milestones_simps:
  "milestones [] = []"
  "milestones (l # out) = (if is_milestone l then l # milestones out else milestones out)"
  by (simp_all add: milestones_def)

lemma milestones_probe: "milestones (snd (probe_packages env ps missing)) = []"
  by (induction ps arbitrary: missing)
     (auto simp: milestones_simps split_beta split: option.splits exc.splits)

lemma milestones_files_exist: "milestones (snd (files_exist_loop base files names b)) = []"
  by (induction names arbitrary: b) (auto simp: milestones_simps split_beta)

lemma milestones_syntax: "milestones (snd (syntax_loop env names b)) = []"
  by (induction names arbitrary: b)
     (auto simp: milestones_simps split_beta split: option.splits exc.splits)

text \<open>Each check prints its heading, once, and no line with a count.\<close>

lemma milestones_python:
  "milestones (fst (snd (check_python_version env files))) = [Heading ''Checking Python version...'']"
  by (simp add: check_python_version_def milestones_simps split: prod.splits)

lemma milestones_packages:
  "milestones (fst (snd (check_required_packages env files)))
     = [Heading ''Checking required packages...'']"
  using milestones_probe [of env required_packages "[]"]
  by (auto simp: check_required_packages_def milestones_simps milestones_append split_beta
        split: sum.splits)

lemma milestones_internet:
  "milestones (fst (snd (check_internet_connectivity env files)))
     = [Heading ''Checking internet connectivity...'']"
  by (simp add: check_internet_connectivity_def milestones_simps split: sum.splits exc.splits)

lemma milestones_database:
  "milestones (fst (snd (check_database_functionality env files)))
     = [Heading ''Checking database functionality...'']"
  by (simp add: check_database_functionality_def milestones_simps split_beta split: sum.splits)

lemma milestones_test_files:
  "milestones (fst (snd (check_test_files_exist env files))) = [Heading ''Checking test files...'']"
  using milestones_files_exist [of "script_parent env" files test_files True]
  by (simp add: check_test_files_exist_def milestones_simps split_beta)

lemma milestones_syntax_check:
  "milestones (fst (snd (run_syntax_check env files))) = [Heading ''Checking Python syntax...'']"
  using milestones_syntax [of env test_files True]
  by (simp add: run_syntax_check_def milestones_simps split_beta)

lemma milestones_quick:
  "milestones (fst (snd (run_quick_test env files)))
     = [Heading ''Running quick pytest verification...'']"
  by (simp add: run_quick_test_def milestones_simps split: sum.splits exc.splits)

lemma milestones_sample:
  "milestones (fst (snd (run_sample_backend_test env files)))
     = [Heading ''Running sample backend test...'']"
  by (simp add: run_sample_backend_test_def milestones_simps split: sum.splits exc.splits)

text \<open>
  The loop runs every check of its list, in order, whatever the checks before it
  returned or raised: by induction on the list, for any list of checks.
\<close>

lemma milestones_run_checks:
  assumes "list_all2 (\<lambda>c h. \<forall>fs'. milestones (fst (snd (snd c env fs'))) = [Heading h]) cs hs"
  shows "milestones (fst (snd (run_checks cs env n files))) = map Heading hs"
  using assms
proof (induction cs hs arbitrary: n files rule: list_all2_induct)
  case Nil
  then show ?case by (simp add: milestones_simps)
next
  case (Cons c cs h hs)
  obtain name f where c: "c = (name, f)" by (cases c)
  from Cons.hyps(1) c have f: "milestones (fst (snd (f env files))) = [Heading h]"
    by simp
  obtain r out files' where run: "f env files = (r, out, files')"
    by (cases "f env files")
  with f have out: "milestones out = [Heading h]" by simp
  show ?case
    using Cons.IH out
    by (cases r) (simp_all add: c run milestones_append milestones_simps split_beta)
qed

lemma run_checks_count:
  "fst (run_checks cs env n files) = n + count_passed (check_results cs env files)"
proof (induction cs arbitrary: n files)
  case Nil
  then show ?case by (simp add: count_passed_def)
next
  case (Cons c cs)
  obtain name f where c: "c = (name, f)" by (cases c)
  obtain r out files' where run: "f env files = (r, out, files')"
    by (cases "f env files")
  show ?case
    using Cons.IH
    by (cases r) (auto simp: c run count_passed_def split_beta)
qed

lemma length_check_results: "length (check_results cs env files) = length cs"
  by (induction cs arbitrary: files) (auto simp: split_beta)

lemma count_passed_all:
  "(count_passed rs = length rs) = (\<forall>r \<in> set rs. r = Inr True)"
proof (induction rs)
  case Nil
  then show ?case by (simp add: count_passed_def)
next
  case (Cons r rs)
  have le: "length (filter (\<lambda>r. r = Inr True) rs) \<noteq> Suc (length rs)"
    using length_filter_le [of "\<lambda>r. r = Inr True" rs] by arith
  show ?case
  proof (cases "r = Inr True")
    case True
    with Cons show ?thesis by (simp add: count_passed_def)
  next
    case False
    with le show ?thesis by (simp add: count_passed_def)
  qed
qed

lemma checks_milestones:
  "list_all2 (\<lambda>c h. \<forall>fs'. milestones (fst (snd (snd c env fs'))) = [Heading h])
     checks check_headings"
  by (simp add: checks_def check_headings_def milestones_python milestones_packages
        milestones_internet milestones_database milestones_test_files milestones_syntax_check
        milestones_quick milestones_sample)

text \<open>
  The function \<^verbatim>\<open>main\<close>, once it is called: for every environment the eight checks
  run in their fixed order, each printing its heading, none held back by a check
  before it that failed or raised; then the count is printed, ``passed/8'' with
  \<open>passed\<close> the number of checks that returned \<^verbatim>\<open>True\<close>; and \<^verbatim>\<open>main\<close> returns
  \<^verbatim>\<open>True\<close> exactly when all eight checks did.
\<close>

lemma verify_main_sequence:
  "milestones (fst (snd (verify_main env files))) =
     map Heading check_headings
       @ [Passed_Count (count_passed (check_results checks env files)) 8]
   \<and> length (check_results checks env files) = 8
   \<and> fst (verify_main env files) =
       (\<forall>r \<in> set (check_results checks env files). r = Inr True)"
proof -
  have len: "length checks = 8"
    by (simp add: checks_def)
  have lenr: "length (check_results checks env files) = 8"
    by (simp add: length_check_results len)
  have n: "fst (run_checks checks env 0 files) = count_passed (check_results checks env files)"
    by (simp add: run_checks_count)
  have m: "milestones (fst (snd (run_checks checks env 0 files))) = map Heading check_headings"
    by (rule milestones_run_checks [OF checks_milestones])
  have all: "(count_passed (check_results checks env files) = 8)
               = (\<forall>r \<in> set (check_results checks env files). r = Inr True)"
    using count_passed_all [of "check_results checks env files"] lenr by simp
  obtain k out files' where run: "run_checks checks env 0 files = (k, out, files')"
    by (cases "run_checks checks env 0 files")
  from n run have k: "k = count_passed (check_results checks env files)" by simp
  from m run have out: "milestones out = map Heading check_headings" by simp
  have 1: "milestones (fst (snd (verify_main env files))) =
     map Heading check_headings
       @ [Passed_Count (count_passed (check_results checks env files)) 8]"
    by (simp add: verify_main_def run len Let_def milestones_append milestones_simps out k)
  have 2: "fst (verify_main env files) =
       (\<forall>r \<in> set (check_results checks env files). r = Inr True)"
    using all by (simp add: verify_main_def run len Let_def k)
  from 1 lenr 2 show ?thesis by simp
qed

text \<open>
  The script, where the import of \<^verbatim>\<open>requests\<close> at the head of the module succeeds:
  \<^verbatim>\<open>main\<close> is reached, the eight checks run as above, and the exit code is 0 when
  all eight returned \<^verbatim>\<open>True\<close> and 1 otherwise.
\<close>

lemma verify_script_sequence:
  assumes "import_module env ''requests'' = None"
  shows "milestones (fst (snd (verify_script env files))) =
           map Heading check_headings
             @ [Passed_Count (count_passed (check_results checks env files)) 8]
         \<and> fst (verify_script env files) =
             Exit (if (\<forall>r \<in> set (check_results checks env files). r = Inr True) then 0 else 1)"
  using assms verify_main_sequence [of env files]
  by (simp add: verify_script_def split_beta)

lemmas check_defs =
  checks_def check_python_version_def check_required_packages_def required_packages_def
  check_internet_connectivity_def check_database_functionality_def database_try_def after_def
  unlink_def row_ok_def check_test_files_exist_def test_files_def joinpath_def
  run_syntax_check_def open_and_compile_def run_quick_test_def run_sample_backend_test_def

lemma verify_script_examples:
  "fst (verify_script healthy repo_files) = Exit 0
   \<and> fst (verify_script faker_missing repo_files) = Exit 1
   \<and> milestones (fst (snd (verify_script faker_missing repo_files))) =
       map Heading check_headings @ [Passed_Count 7 8]"
proof -
  have h: "check_results checks healthy repo_files =
             [Inr True, Inr True, Inr True, Inr True, Inr True, Inr True, Inr True, Inr True]"
    by (simp add: check_defs healthy_def repo_files_def)
  have f: "check_results checks faker_missing repo_files =
             [Inr True, Inr False, Inr True, Inr True, Inr True, Inr True, Inr True, Inr True]"
    by (simp add: check_defs faker_missing_def healthy_def repo_files_def)
  have ih: "import_module healthy ''requests'' = None"
    by (simp add: healthy_def)
  have "import_module faker_missing ''requests'' = None"
    by (simp add: faker_missing_def healthy_def)
  then show ?thesis
    using verify_script_sequence [OF ih, of repo_files]
          verify_script_sequence [of faker_missing repo_files]
    by (simp add: h f count_passed_def)
qed

text \<open>
  The package check is written to report a package that is not installed as a
  failed check, \<^verbatim>\<open>requests\<close> among the packages it probes: called where \<^verbatim>\<open>requests\<close>
  is missing, it returns \<^verbatim>\<open>False\<close> and raises nothing.
\<close>

lemma packages_check_reports_requests:
  "fst (check_required_packages requests_missing files) = Inr False"
  by (simp add: check_required_packages_def required_packages_def requests_missing_def
        healthy_def split_beta)

text \<open>
  Claim C5 says that in every run of the verification sequence all eight checks are
  executed in their fixed order, none blocked by the failure of another, that the
  final output is the count passed/8, and that the exit code is 0 exactly when all
  eight checks passed and 1 otherwise. The script does not do that where the
  package \<^verbatim>\<open>requests\<close> is not installed: line 12 imports it at the head of the
  module, so the process ends with an uncaught \<^verbatim>\<open>ModuleNotFoundError\<close> before
  \<^verbatim>\<open>main\<close> is called; no check runs, no heading and no count is printed, and the
  process ends by the stack trace rather than by \<^verbatim>\<open>sys.exit\<close>.
\<close>

theorem no_check_runs_without_requests:
  "verify_script requests_missing repo_files = (Traceback (Exception ImportError), [], repo_files)"
  by (simp add: verify_script_def requests_missing_def healthy_def)

end
